theory Spec2Isabelle
  imports
    Complex_Main
    "HOL-Library.Char_ord"
    "HOL-Library.List_Lexorder"
    "HOL-Library.Sublist"
    "HOL-Library.AList"
begin

section \<open>har-to-llm: the converter's deduplication and comparison engine\<close>

text \<open>
  A shallow embedding of \<^verbatim>\<open>HARConverter\<close> (converter.ts). Conventions:
  \<^item> a JavaScript string is a \<open>string\<close>; the default \<^verbatim>\<open>Array.prototype.sort\<close> on
    strings is the lexicographic order on character codes, which is the order of
    \<open>List_Lexorder\<close> over \<open>Char_ord\<close>;
  \<^item> a \<^verbatim>\<open>Record<string, T>\<close> and a parsed JSON object are association lists in
    property order; \<^verbatim>\<open>obj[k] = v\<close> is \<open>AList.update\<close> (replace in place, else
    append), \<^verbatim>\<open>obj[k]\<close> is \<open>map_of\<close>, with \<open>None\<close> for \<^verbatim>\<open>undefined\<close>. Only own
    properties are modelled: the members inherited from \<^verbatim>\<open>Object.prototype\<close>
    (\<^verbatim>\<open>__proto__\<close>, \<^verbatim>\<open>constructor\<close>, ...) are outside the model;
  \<^item> an optional field is an \<open>option\<close>;
  \<^item> a thrown exception is \<open>Inl\<close> of an \<open>error\<close>, a \<^verbatim>\<open>try\<close>/\<^verbatim>\<open>catch\<close> is
    \<open>try_catch\<close>;
  \<^item> the built-ins \<^verbatim>\<open>JSON.parse\<close>, \<^verbatim>\<open>JSON.stringify\<close>, \<^verbatim>\<open>new URL(...).hostname\<close>
    and \<^verbatim>\<open>Number.prototype.toString\<close> are parameters of the functions that call
    them;
  \<^item> a \<^verbatim>\<open>number\<close> that is only compared is an \<open>int\<close> (status codes), one that is
    added and divided is a \<open>real\<close> (durations): rounding of IEEE doubles is not
    modelled;
  \<^item> \<^verbatim>\<open>toLowerCase\<close> is modelled on the letters A to Z, the characters of header names.
\<close>

subsection \<open>Errors\<close>

datatype error = SyntaxError | TypeError

definition try_catch :: "error + 'a \<Rightarrow> error + 'a \<Rightarrow> error + 'a" where
  "try_catch body handler = (case body of Inl e \<Rightarrow> handler | Inr v \<Rightarrow> Inr v)"

subsection \<open>JSON values\<close>

datatype json =
    JNull
  | JBool bool
  | JNum real
  | JStr string
  | JArr "json list"
  | JObj "(string \<times> json) list"

type_synonym json_parser = "string \<Rightarrow> error + json"


fun typeof :: "json \<Rightarrow> string" where
  "typeof JNull = ''object''"
| "typeof (JBool b) = ''boolean''"
| "typeof (JNum n) = ''number''"
| "typeof (JStr s) = ''string''"
| "typeof (JArr xs) = ''object''"
| "typeof (JObj kvs) = ''object''"

fun isArray :: "json \<Rightarrow> bool" where
  "isArray (JArr xs) = True"
| "isArray v = False"

fun elements :: "json \<Rightarrow> json list" where
  "elements (JArr xs) = xs"
| "elements v = []"

fun join :: "string \<Rightarrow> string list \<Rightarrow> string" where
  "join sep [] = []"
| "join sep [x] = x"
| "join sep (x # y # ys) = x @ sep @ join sep (y # ys)"

text \<open>The loop \<^verbatim>\<open>for (i = 0; i < keys1.length; i++) if (keys1[i] !== keys2[i]) return false\<close>,
  entered only when both arrays have the same length.\<close>

fun keysMatch :: "string list \<Rightarrow> string list \<Rightarrow> bool" where
  "keysMatch (k1 # keys1) (k2 # keys2) = (if k1 \<noteq> k2 then False else keysMatch keys1 keys2)"
| "keysMatch keys1 keys2 = True"

subsection \<open>getStructureKey\<close>

fun getStructureKey :: "json \<Rightarrow> string" where
  "getStructureKey (JArr []) = ''[]''"
| "getStructureKey (JArr (x # xs)) = ''['' @ getStructureKey x @ '']''"
| "getStructureKey (JObj kvs) = ''{'' @ join '','' (sort (map fst kvs)) @ ''}''"
| "getStructureKey v = typeof v"

subsection \<open>normalizeJsonStructure\<close>

text \<open>
  \<open>uniqueStructures\<close> is the loop over the elements of an array, with the array
  \<^verbatim>\<open>uniqueStructures\<close> and the set \<^verbatim>\<open>seenStructureKeys\<close> as accumulators;
  \<open>normalizedEntries\<close> is the loop over \<^verbatim>\<open>Object.entries(obj)\<close>, with the object
  \<^verbatim>\<open>normalized\<close> as accumulator.
\<close>

fun normalizeJsonStructure :: "json \<Rightarrow> json"
  and uniqueStructures :: "json list \<Rightarrow> json list \<Rightarrow> string set \<Rightarrow> json list"
  and normalizedEntries :: "(string \<times> json) list \<Rightarrow> (string \<times> json) list \<Rightarrow> (string \<times> json) list"
where
  "normalizeJsonStructure (JArr xs) =
     (if xs = [] then JArr xs else JArr (uniqueStructures xs [] {}))"
| "normalizeJsonStructure (JObj kvs) = JObj (normalizedEntries kvs [])"
| "normalizeJsonStructure JNull = JNull"
| "normalizeJsonStructure (JBool b) = JBool b"
| "normalizeJsonStructure (JNum n) = JNum n"
| "normalizeJsonStructure (JStr s) = JStr s"
| "uniqueStructures [] unique seen = unique"
| "uniqueStructures (element # rest) unique seen =
     (let normalizedElement = normalizeJsonStructure element;
          structureKey = getStructureKey normalizedElement
      in if structureKey \<notin> seen
         then uniqueStructures rest (unique @ [normalizedElement]) (insert structureKey seen)
         else uniqueStructures rest unique seen)"
| "normalizedEntries [] normalized = normalized"
| "normalizedEntries ((key, v) # rest) normalized =
     normalizedEntries rest (AList.update key (normalizeJsonStructure v) normalized)"

subsection \<open>areJsonStructuresSimilar\<close>

text \<open>
  \<open>similarForKeys\<close> is the loop \<^verbatim>\<open>for (const key of keys1)\<close>. A property read of a
  missing key gives \<^verbatim>\<open>undefined\<close>: two \<^verbatim>\<open>undefined\<close> compare similar (equal
  \<^verbatim>\<open>typeof\<close>, no array, no object), \<^verbatim>\<open>undefined\<close> and a JSON value do not (their
  \<^verbatim>\<open>typeof\<close> differ). \<^verbatim>\<open>Object.keys(null)\<close> throws a TypeError. In the object branch
  the second value has \<^verbatim>\<open>typeof\<close> "object" and is no array, so it is an object or
  \<^verbatim>\<open>null\<close>: the last case of the inner \<open>case\<close> is never reached.
\<close>

lemma size_map_of_json:
  "Some v = map_of kvs k \<Longrightarrow> size v \<le> size_list (size_prod (\<lambda>_. 0) size) kvs"
  by (induction kvs) (auto split: if_splits)

lemma size_hd_elements:
  "elements obj \<noteq> [] \<Longrightarrow> size (hd (elements obj)) < size obj"
  by (cases obj; cases "elements obj") auto

function areJsonStructuresSimilar :: "json \<Rightarrow> json \<Rightarrow> error + bool"
  and similarForKeys :: "string list \<Rightarrow> (string \<times> json) list \<Rightarrow> (string \<times> json) list \<Rightarrow> error + bool"
where
  "areJsonStructuresSimilar obj1 obj2 =
     (if typeof obj1 \<noteq> typeof obj2 then Inr False
      else if isArray obj1 \<noteq> isArray obj2 then Inr False
      else if isArray obj1 then
        (if elements obj1 = [] \<and> elements obj2 = [] then Inr True
         else if elements obj1 = [] \<or> elements obj2 = [] then Inr False
         else areJsonStructuresSimilar (hd (elements obj1)) (hd (elements obj2)))
      else
        (case obj1 of
           JObj kvs1 \<Rightarrow>
             (case obj2 of
                JObj kvs2 \<Rightarrow>
                  (let keys1 = sort (map fst kvs1); keys2 = sort (map fst kvs2)
                   in if length keys1 \<noteq> length keys2 then Inr False
                      else if \<not> keysMatch keys1 keys2 then Inr False
                      else similarForKeys keys1 kvs1 kvs2)
              | JNull \<Rightarrow> Inl TypeError
              | _ \<Rightarrow> Inr False)
         | _ \<Rightarrow> Inr True))"
| "similarForKeys [] kvs1 kvs2 = Inr True"
| "similarForKeys (key # keys) kvs1 kvs2 =
     (case (map_of kvs1 key, map_of kvs2 key) of
        (Some v1, Some v2) \<Rightarrow>
          (case areJsonStructuresSimilar v1 v2 of
             Inl e \<Rightarrow> Inl e
           | Inr similar \<Rightarrow> if \<not> similar then Inr False else similarForKeys keys kvs1 kvs2)
      | (None, None) \<Rightarrow> similarForKeys keys kvs1 kvs2
      | _ \<Rightarrow> Inr False)"
  by pat_completeness auto

termination areJsonStructuresSimilar
proof (relation "inv_image (less_than <*lex*> less_than)
    (\<lambda>x. case x of
       Inl (obj1, obj2) \<Rightarrow> (2 * size obj1 + 1, 0)
     | Inr (keys, kvs1, kvs2) \<Rightarrow> (2 * size (JObj kvs1), length keys))", goal_cases)
  case 1
  show ?case by (intro wf_inv_image wf_lex_prod wf_less_than)
next
  case (2 obj1 obj2)
  then show ?case using size_hd_elements [of obj1] by simp
next
  case 3
  then show ?case by simp
next
  case 4
  then show ?case by simp
next
  case (5 key keys kvs1 kvs2 x y v1 v2)
  then have "Some v1 = map_of kvs1 key" by simp
  from size_map_of_json [OF this] show ?case by simp
next
  case 6
  then show ?case by simp
qed

declare areJsonStructuresSimilar.simps [simp del]

subsection \<open>Strings\<close>

definition toLowerChar :: "char \<Rightarrow> char" where
  "toLowerChar c =
     (case map_of (zip ''ABCDEFGHIJKLMNOPQRSTUVWXYZ'' ''abcdefghijklmnopqrstuvwxyz'') c of
        Some l \<Rightarrow> l
      | None \<Rightarrow> c)"

definition toLowerCase :: "string \<Rightarrow> string" where
  "toLowerCase s = map toLowerChar s"

fun includes_str :: "string \<Rightarrow> string \<Rightarrow> bool" where
  "includes_str [] sub = (sub = [])"
| "includes_str (c # cs) sub = (prefix sub (c # cs) \<or> includes_str cs sub)"

definition isDigit :: "char \<Rightarrow> bool" where
  "isDigit c = (c \<in> set ''0123456789'')"

definition isHexDigit :: "char \<Rightarrow> bool" where
  "isHexDigit c = (c \<in> set ''0123456789abcdefABCDEF'')"

definition isAlnum :: "char \<Rightarrow> bool" where
  "isAlnum c =
     (c \<in> set ''abcdefghijklmnopqrstuvwxyzABCDEFGHIJKLMNOPQRSTUVWXYZ0123456789'')"

subsection \<open>The HAR entry and the converted records (types.ts)\<close>

text \<open>
  The fields of \<^verbatim>\<open>HAREntry\<close> that the converter reads. A \<^verbatim>\<open>{name, value}\<close> object of
  the header and query-string arrays is a pair. Field names carry the prefix of their
  record: \<open>req_\<close>, \<open>pd_\<close>, \<open>c_\<close>, \<open>res_\<close>, \<open>e_\<close> for the HAR types, \<open>lr_\<close>,
  \<open>lp_\<close>, \<open>conv_\<close> and \<open>sig_\<close> for \<^verbatim>\<open>LLMRequest\<close>, \<^verbatim>\<open>LLMResponse\<close>,
  \<^verbatim>\<open>LLMConversation\<close> and \<^verbatim>\<open>RequestSignature\<close>.
\<close>

record post_data =
  pd_mimeType :: string
  pd_text :: string

record har_request =
  req_method :: string
  req_url :: string
  req_httpVersion :: string
  req_headers :: "(string \<times> string) list"
  req_queryString :: "(string \<times> string) list"
  req_postData :: "post_data option"

record har_content =
  c_mimeType :: string
  c_text :: "string option"

record har_response =
  res_status :: int
  res_statusText :: string
  res_httpVersion :: string
  res_headers :: "(string \<times> string) list"
  res_content :: har_content

record har_entry =
  e_startedDateTime :: string
  e_time :: real
  e_request :: har_request
  e_response :: har_response

record llm_request =
  lr_method :: string
  lr_url :: string
  lr_headers :: "(string \<times> string) list"
  lr_queryParams :: "(string \<times> string) list"
  lr_body :: "string option"
  lr_contentType :: "string option"



record request_signature =
  sig_method :: string
  sig_url :: string
  sig_headers :: "(string \<times> string) list"
  sig_queryParams :: "(string \<times> string) list"
  sig_body :: "string option"

subsection \<open>isUselessHeader, convertRequest, convertResponse, convertEntry\<close>

definition uselessHeaders :: "string list" where
  "uselessHeaders =
     [''user-agent'', ''accept'', ''accept-language'', ''accept-encoding'',
      ''cache-control'', ''pragma'', ''upgrade-insecure-requests'', ''sec-fetch-dest'',
      ''sec-fetch-mode'', ''sec-fetch-site'', ''sec-fetch-user'', ''sec-ch-ua'',
      ''sec-ch-ua-mobile'', ''sec-ch-ua-platform'',
      ''connection'', ''keep-alive'', ''transfer-encoding'', ''content-encoding'',
      ''content-length'', ''date'', ''server'', ''via'', ''x-powered-by'',
      ''x-aspnet-version'', ''x-aspnetmvc-version'',
      ''etag'', ''last-modified'', ''if-modified-since'', ''if-none-match'', ''if-match'',
      ''if-unmodified-since'',
      ''x-frame-options'', ''x-content-type-options'', ''x-xss-protection'',
      ''strict-transport-security'', ''content-security-policy'', ''referrer-policy'',
      ''x-forwarded-for'', ''x-real-ip'', ''x-forwarded-proto'', ''x-forwarded-host'',
      ''x-forwarded-port'', ''x-requested-with'',
      ''cf-ray'', ''cf-cache-status'', ''cf-request-id'', ''x-cache'', ''x-cache-hit'',
      ''x-amz-cf-id'', ''x-amz-cf-pop'',
      ''origin'', ''referer'', ''dnt'', ''save-data'', ''viewport-width'',
      ''device-memory'', ''downlink'', ''ect'', ''rtt'', ''save-data'']"

definition isUselessHeader :: "string \<Rightarrow> bool" where
  "isUselessHeader headerName = (headerName \<in> set uselessHeaders)"

text \<open>The body of \<^verbatim>\<open>headers.forEach(header => ...)\<close>, shared by both converters.\<close>

definition addHeader :: "(string \<times> string) list \<Rightarrow> string \<times> string \<Rightarrow> (string \<times> string) list" where
  "addHeader headers header =
     (let key = toLowerCase (fst header)
      in if \<not> isUselessHeader key then AList.update key (snd header) headers else headers)"

definition addParam :: "(string \<times> string) list \<Rightarrow> string \<times> string \<Rightarrow> (string \<times> string) list" where
  "addParam queryParams param = AList.update (fst param) (snd param) queryParams"

definition convertRequest :: "har_request \<Rightarrow> llm_request" where
  "convertRequest harRequest =
     (let headers = foldl addHeader [] (req_headers harRequest);
          queryParams = foldl addParam [] (req_queryString harRequest)
      in (case req_postData harRequest of
            Some postData \<Rightarrow>
              \<lparr>lr_method = req_method harRequest, lr_url = req_url harRequest,
               lr_headers = headers, lr_queryParams = queryParams,
               lr_body = Some (pd_text postData),
               lr_contentType = Some (pd_mimeType postData)\<rparr>
          | None \<Rightarrow>
              \<lparr>lr_method = req_method harRequest, lr_url = req_url harRequest,
               lr_headers = headers, lr_queryParams = queryParams,
               lr_body = None, lr_contentType = None\<rparr>))"



definition createSemanticSignature :: "har_entry \<Rightarrow> request_signature" where
  "createSemanticSignature entry =
     (let request = convertRequest (e_request entry)
      in \<lparr>sig_method = lr_method request, sig_url = lr_url request,
          sig_headers = lr_headers request, sig_queryParams = lr_queryParams request,
          sig_body = lr_body request\<rparr>)"


subsection \<open>normalizeUrl\<close>

text \<open>
  Each of the four regular expressions has the form \<^verbatim>\<open>\/ BODY (\/|$)\<close> with the flag
  \<^verbatim>\<open>g\<close>, and each replacement is a fixed text followed by \<^verbatim>\<open>$1\<close>.

  \<open>matchSegment body s\<close> is a match of such an expression at the start of \<open>s\<close>: the
  length of the match and the text of group 1. \<open>body r\<close> is the length of the only
  match of BODY at the start of \<open>r\<close> that can be followed by \<^verbatim>\<open>/\<close> or the end of the
  string: for \<^verbatim>\<open>\d+\<close> the longest run of digits (after a shorter run comes a digit),
  for the bodies of fixed length that length. \<^verbatim>\<open>$\<close> is the end of the string, the
  expressions have no flag \<^verbatim>\<open>m\<close>.

  \<open>replaceAll m rep s\<close> is \<^verbatim>\<open>s.replace(re, rep + '$1')\<close> for a global expression:
  matches are searched from left to right, the search goes on after the end of the
  last match, and what lies between matches is copied. No expression here matches the
  empty string.
\<close>

type_synonym matcher = "string \<Rightarrow> (nat \<times> string) option"

definition matchSegment :: "(string \<Rightarrow> nat option) \<Rightarrow> matcher" where
  "matchSegment body s =
     (case s of
        [] \<Rightarrow> None
      | c # r \<Rightarrow>
          if c \<noteq> CHR ''/'' then None
          else (case body r of
                  None \<Rightarrow> None
                | Some n \<Rightarrow>
                    (case drop n r of
                       [] \<Rightarrow> Some (n + 1, [])
                     | d # r' \<Rightarrow> if d = CHR ''/'' then Some (n + 2, ''/'') else None)))"

fun replaceAll :: "matcher \<Rightarrow> string \<Rightarrow> string \<Rightarrow> string" where
  "replaceAll m rep [] = []"
| "replaceAll m rep (c # cs) =
     (case m (c # cs) of
        None \<Rightarrow> c # replaceAll m rep cs
      | Some (n, group1) \<Rightarrow> rep @ group1 @ replaceAll m rep (drop (n - 1) cs))"

definition digitsBody :: "string \<Rightarrow> nat option" where
  "digitsBody r =
     (let n = length (takeWhile isDigit r) in if n = 0 then None else Some n)"

definition fixedBody :: "nat \<Rightarrow> (string \<Rightarrow> bool) \<Rightarrow> string \<Rightarrow> nat option" where
  "fixedBody len ok r = (if len \<le> length r \<and> ok (take len r) then Some len else None)"

text \<open>\<^verbatim>\<open>[0-9a-f]{8}-[0-9a-f]{4}-[0-9a-f]{4}-[0-9a-f]{4}-[0-9a-f]{12}\<close> with the flag
  \<^verbatim>\<open>i\<close>, on a text of 36 characters.\<close>

definition isUuid :: "string \<Rightarrow> bool" where
  "isUuid seg =
     (list_all isHexDigit (take 8 seg) \<and> take 1 (drop 8 seg) = ''-'' \<and>
      list_all isHexDigit (take 4 (drop 9 seg)) \<and> take 1 (drop 13 seg) = ''-'' \<and>
      list_all isHexDigit (take 4 (drop 14 seg)) \<and> take 1 (drop 18 seg) = ''-'' \<and>
      list_all isHexDigit (take 4 (drop 19 seg)) \<and> take 1 (drop 23 seg) = ''-'' \<and>
      list_all isHexDigit (drop 24 seg))"

definition normalizeUrl :: "string \<Rightarrow> string" where
  "normalizeUrl url =
     (let normalized = replaceAll (matchSegment digitsBody) ''/{id}'' url;
          normalized = replaceAll (matchSegment (fixedBody 36 isUuid)) ''/{uuid}'' normalized;
          normalized = replaceAll (matchSegment (fixedBody 24 (list_all isAlnum))) ''/{objectId}'' normalized;
          normalized = replaceAll (matchSegment (fixedBody 32 (list_all isAlnum))) ''/{hash}'' normalized
      in normalized)"

subsection \<open>The similarity predicates\<close>

definition areQueryParamsSimilar :: "(string \<times> string) list \<Rightarrow> (string \<times> string) list \<Rightarrow> bool" where
  "areQueryParamsSimilar params1 params2 =
     (let keys1 = sort (map fst params1); keys2 = sort (map fst params2)
      in if length keys1 \<noteq> length keys2 then False
         else if \<not> keysMatch keys1 keys2 then False
         else True)"

definition areHeadersSimilar :: "(string \<times> string) list \<Rightarrow> (string \<times> string) list \<Rightarrow> bool" where
  "areHeadersSimilar headers1 headers2 =
     (let keys1 = sort (map fst headers1); keys2 = sort (map fst headers2)
      in if length keys1 \<noteq> length keys2 then False
         else if \<not> keysMatch keys1 keys2 then False
         else True)"

text \<open>\<^verbatim>\<open>!body\<close> on a \<^verbatim>\<open>string | undefined\<close>: true when the body is missing or empty.\<close>

fun falsy :: "string option \<Rightarrow> bool" where
  "falsy None = True"
| "falsy (Some s) = (s = [])"

definition areBodiesSimilar :: "json_parser \<Rightarrow> string option \<Rightarrow> string option \<Rightarrow> error + bool" where
  "areBodiesSimilar parse body1 body2 =
     (if falsy body1 \<and> falsy body2 then Inr True
      else if falsy body1 \<or> falsy body2 then Inr False
      else try_catch
        (case parse (the body1) of
           Inl e \<Rightarrow> Inl e
         | Inr json1 \<Rightarrow>
             (case parse (the body2) of
                Inl e \<Rightarrow> Inl e
              | Inr json2 \<Rightarrow> areJsonStructuresSimilar json1 json2))
        (Inr (body1 = body2)))"

definition areRequestsSemanticallySimilar ::
  "json_parser \<Rightarrow> request_signature \<Rightarrow> request_signature \<Rightarrow> error + bool" where
  "areRequestsSemanticallySimilar parse sig1 sig2 =
     (if sig_method sig1 \<noteq> sig_method sig2 then Inr False
      else if normalizeUrl (sig_url sig1) \<noteq> normalizeUrl (sig_url sig2) then Inr False
      else if \<not> areQueryParamsSimilar (sig_queryParams sig1) (sig_queryParams sig2) then Inr False
      else (case areBodiesSimilar parse (sig_body sig1) (sig_body sig2) of
              Inl e \<Rightarrow> Inl e
            | Inr similar \<Rightarrow>
                if \<not> similar then Inr False
                else if \<not> areHeadersSimilar (sig_headers sig1) (sig_headers sig2) then Inr False
                else Inr True))"

text \<open>
  The value of \<^verbatim>\<open>content && content.mimeType && content.mimeType.includes('json')\<close>:
  the content object is truthy, so the value is the empty string when the MIME type is
  empty and the boolean of \<^verbatim>\<open>includes\<close> otherwise. \<^verbatim>\<open>!==\<close> compares the two values
  without conversion: the empty string and \<^verbatim>\<open>false\<close> differ.
\<close>

datatype json_flag = EmptyString | Flag bool

definition hasJson :: "har_content \<Rightarrow> json_flag" where
  "hasJson content =
     (if c_mimeType content = [] then EmptyString
      else Flag (includes_str (c_mimeType content) ''json''))"

fun truthy :: "json_flag \<Rightarrow> bool" where
  "truthy EmptyString = False"
| "truthy (Flag b) = b"

text \<open>\<^verbatim>\<open>text || '{}'\<close>.\<close>

definition textOrEmptyObject :: "string option \<Rightarrow> string" where
  "textOrEmptyObject t = (if falsy t then ''{}'' else the t)"

definition areResponsesSemanticallySimilar :: "json_parser \<Rightarrow> har_entry \<Rightarrow> har_entry \<Rightarrow> error + bool" where
  "areResponsesSemanticallySimilar parse entry1 entry2 =
     (let response1 = e_response entry1; response2 = e_response entry2
      in if res_status response1 \<noteq> res_status response2 then Inr False
         else
           (let hasJson1 = hasJson (res_content response1);
                hasJson2 = hasJson (res_content response2)
            in if hasJson1 \<noteq> hasJson2 then Inr False
               else if truthy hasJson1 \<and> truthy hasJson2 then
                 try_catch
                   (case parse (textOrEmptyObject (c_text (res_content response1))) of
                      Inl e \<Rightarrow> Inl e
                    | Inr json1 \<Rightarrow>
                        (case parse (textOrEmptyObject (c_text (res_content response2))) of
                           Inl e \<Rightarrow> Inl e
                         | Inr json2 \<Rightarrow>
                             areJsonStructuresSimilar
                               (normalizeJsonStructure json1) (normalizeJsonStructure json2)))
                   (Inr (c_text (res_content response1) = c_text (res_content response2)))
               else Inr (c_text (res_content response1) = c_text (res_content response2))))"

subsection \<open>deduplicateEntries\<close>

text \<open>
  \<open>similarExists\<close> is the inner loop over \<^verbatim>\<open>deduplicated\<close>: it returns whether the loop
  left by \<^verbatim>\<open>break\<close>, that is the negation of \<^verbatim>\<open>shouldAdd\<close>. \<open>deduplicateLoop\<close> is the
  outer loop, with \<^verbatim>\<open>deduplicated\<close> as accumulator.
\<close>

fun similarExists :: "json_parser \<Rightarrow> har_entry \<Rightarrow> har_entry list \<Rightarrow> error + bool" where
  "similarExists parse entry [] = Inr False"
| "similarExists parse entry (existingEntry # rest) =
     (case areRequestsSemanticallySimilar parse
             (createSemanticSignature entry) (createSemanticSignature existingEntry) of
        Inl e \<Rightarrow> Inl e
      | Inr requestsSimilar \<Rightarrow>
          (case areResponsesSemanticallySimilar parse entry existingEntry of
             Inl e \<Rightarrow> Inl e
           | Inr responsesSimilar \<Rightarrow>
               if requestsSimilar \<and> responsesSimilar then Inr True
               else similarExists parse entry rest))"

fun deduplicateLoop :: "json_parser \<Rightarrow> har_entry list \<Rightarrow> har_entry list \<Rightarrow> error + har_entry list" where
  "deduplicateLoop parse [] deduplicated = Inr deduplicated"
| "deduplicateLoop parse (entry # entries) deduplicated =
     (case similarExists parse entry deduplicated of
        Inl e \<Rightarrow> Inl e
      | Inr found \<Rightarrow>
          if \<not> found then deduplicateLoop parse entries (deduplicated @ [entry])
          else deduplicateLoop parse entries deduplicated)"

definition deduplicateEntries :: "json_parser \<Rightarrow> har_entry list \<Rightarrow> error + har_entry list" where
  "deduplicateEntries parse entries = deduplicateLoop parse entries []"

subsection \<open>removeExactDuplicates\<close>








subsection \<open>generateSummary\<close>






subsection \<open>Auxiliary notions for the proofs\<close>

text \<open>
  \<open>bothSimilar\<close> names the test of the inner loop of \<^verbatim>\<open>deduplicateEntries\<close>: both
  predicates return \<^verbatim>\<open>true\<close>. A list is \<open>irredundant\<close> when no element passes that test
  against an element before it.
\<close>

definition bothSimilar :: "json_parser \<Rightarrow> har_entry \<Rightarrow> har_entry \<Rightarrow> bool" where
  "bothSimilar parse entry existingEntry =
     (areRequestsSemanticallySimilar parse
        (createSemanticSignature entry) (createSemanticSignature existingEntry) = Inr True
      \<and> areResponsesSemanticallySimilar parse entry existingEntry = Inr True)"

definition irredundant :: "json_parser \<Rightarrow> har_entry list \<Rightarrow> bool" where
  "irredundant parse kept =
     (\<forall>pre entry post. kept = pre @ entry # post \<longrightarrow> \<not> list_ex (bothSimilar parse entry) pre)"

subsection \<open>Sample data and the notions of the statements\<close>

text \<open>
  \<open>sampleParse\<close> is \<^verbatim>\<open>JSON.parse\<close> on the texts the examples use, and a SyntaxError on
  every other text. \<open>exchangeA\<close> and \<open>exchangeB\<close> are two captures of the same endpoint
  that differ in the identifier of the path and in the values of the bodies.
\<close>

definition sampleParse :: json_parser where
  \<open>sampleParse s =
     (if s = ''{"id":1,"name":"x"}'' then Inr (JObj [(''id'', JNum 1), (''name'', JStr ''x'')])
      else if s = ''{"id":2,"name":"y"}'' then Inr (JObj [(''id'', JNum 2), (''name'', JStr ''y'')])
      else if s = ''{}'' then Inr (JObj [])
      else if s = ''null'' then Inr JNull
      else if s = ''[1,2,"a",3]'' then Inr (JArr [JNum 1, JNum 2, JStr ''a'', JNum 3])
      else Inl SyntaxError)\<close>

definition exchange :: "string \<Rightarrow> string \<Rightarrow> har_entry" where
  "exchange u body =
     \<lparr>e_startedDateTime = ''2023-12-01T10:30:00.000Z'', e_time = 150,
      e_request =
        \<lparr>req_method = ''GET'', req_url = u, req_httpVersion = ''HTTP/1.1'',
         req_headers = [(''Authorization'', ''Bearer token123''), (''User-Agent'', ''curl'')],
         req_queryString = [],
         req_postData = Some \<lparr>pd_mimeType = ''application/json'', pd_text = body\<rparr>\<rparr>,
      e_response =
        \<lparr>res_status = 200, res_statusText = ''OK'', res_httpVersion = ''HTTP/1.1'',
         res_headers = [(''Content-Type'', ''application/json'')],
         res_content = \<lparr>c_mimeType = ''application/json'', c_text = Some body\<rparr>\<rparr>\<rparr>"

definition exchangeA :: har_entry where
  \<open>exchangeA = exchange ''https://api.example.com/users/1'' ''{"id":1,"name":"x"}''\<close>

definition exchangeB :: har_entry where
  \<open>exchangeB = exchange ''https://api.example.com/users/2'' ''{"id":2,"name":"y"}''\<close>








text \<open>
  The response test in the words of claim C3: equal status codes; both responses have a
  JSON content type or neither; when both have, the structural comparison of the
  normalized values when both texts parse and equality of the texts when a parse fails
  (a missing text has nothing to parse); when neither has, equality of the texts.
\<close>

definition claimedResponsesSimilar :: "json_parser \<Rightarrow> har_entry \<Rightarrow> har_entry \<Rightarrow> bool" where
  "claimedResponsesSimilar parse entry1 entry2 =
     (let content1 = res_content (e_response entry1);
          content2 = res_content (e_response entry2);
          json1 = includes_str (c_mimeType content1) ''json'';
          json2 = includes_str (c_mimeType content2) ''json''
      in res_status (e_response entry1) = res_status (e_response entry2)
         \<and> json1 = json2
         \<and> (if json1 \<and> json2 then
               (case (c_text content1, c_text content2) of
                  (Some text1, Some text2) \<Rightarrow>
                    (case (parse text1, parse text2) of
                       (Inr value1, Inr value2) \<Rightarrow>
                         areJsonStructuresSimilar
                           (normalizeJsonStructure value1) (normalizeJsonStructure value2) = Inr True
                     | _ \<Rightarrow> text1 = text2)
                | _ \<Rightarrow> c_text content1 = c_text content2)
             else c_text content1 = c_text content2))"

text \<open>
  \<open>withResponse mime body\<close> is \<open>exchangeA\<close> with the response content of MIME type
  \<open>mime\<close> and text \<open>body\<close>.
\<close>

definition withResponse :: "string \<Rightarrow> string option \<Rightarrow> har_entry" where
  "withResponse mime body =
     exchangeA\<lparr>e_response :=
       (e_response exchangeA)\<lparr>res_content := \<lparr>c_mimeType = mime, c_text = body\<rparr>\<rparr>\<rparr>"








text \<open>
  A text as a list of segments, each led by its \<^verbatim>\<open>/\<close>; the patterns of \<^verbatim>\<open>normalizeUrl\<close>
  as tests on a whole segment, and the placeholder of a segment: that of the first
  pattern that matches it, the segment itself when none does. \<open>segmentPass\<close> is one
  replacement pass on the segments: the \<^verbatim>\<open>/\<close> that ends a match is part of the match,
  so the segment after a replaced one is copied without being tested.
  \<open>claimedPlaceholder\<close> is the placeholder in the words of claim C5, with hexadecimal
  characters for the patterns of length 24 and 32.
\<close>

definition joinSegments :: "string list \<Rightarrow> string" where
  "joinSegments segs = concat (map (\<lambda>seg. CHR ''/'' # seg) segs)"










text \<open>
  Structural similarity as the specification words it: the JSON types match; two primitives of one
  type are similar; two objects are similar when they have the same member names and the
  two values of every name are similar; two arrays are similar when both are empty, or
  neither is and their first elements are similar. \<open>nullFree\<close> holds of a value with no
  \<^verbatim>\<open>null\<close> in it, \<open>distinctKeys\<close> of a value whose objects have no member name twice.
\<close>

lemma size_hd_list: "xs \<noteq> [] \<Longrightarrow> size (hd xs) \<le> size_list size xs"
  by (cases xs) simp_all

function structurallySimilar :: "json \<Rightarrow> json \<Rightarrow> bool" where
  "structurallySimilar a b =
     (case (a, b) of
        (JNull, JNull) \<Rightarrow> True
      | (JBool x, JBool y) \<Rightarrow> True
      | (JNum x, JNum y) \<Rightarrow> True
      | (JStr x, JStr y) \<Rightarrow> True
      | (JArr xs, JArr ys) \<Rightarrow>
          if xs = [] \<or> ys = [] then xs = [] \<and> ys = []
          else structurallySimilar (hd xs) (hd ys)
      | (JObj kvs1, JObj kvs2) \<Rightarrow>
          set (map fst kvs1) = set (map fst kvs2) \<and> length kvs1 = length kvs2
          \<and> (\<forall>v1 v2 key. key \<in> set (map fst kvs1) \<and> Some v1 = map_of kvs1 key
                 \<and> Some v2 = map_of kvs2 key \<longrightarrow> structurallySimilar v1 v2)
      | _ \<Rightarrow> False)"
  by pat_completeness auto
termination
  by (relation "measure (\<lambda>(a, b). size a)")
     (auto dest!: size_map_of_json simp: less_Suc_eq_le size_hd_list)

fun nullFree :: "json \<Rightarrow> bool" where
  "nullFree JNull = False"
| "nullFree (JArr xs) = (\<forall>x \<in> set xs. nullFree x)"
| "nullFree (JObj kvs) = (\<forall>kv \<in> set kvs. nullFree (snd kv))"
| "nullFree v = True"

fun distinctKeys :: "json \<Rightarrow> bool" where
  "distinctKeys (JArr xs) = (\<forall>x \<in> set xs. distinctKeys x)"
| "distinctKeys (JObj kvs) = (distinct (map fst kvs) \<and> (\<forall>kv \<in> set kvs. distinctKeys (snd kv)))"
| "distinctKeys v = True"

declare structurallySimilar.simps [simp del]

section \<open>Properties\<close>

subsection \<open>The comparison functions return; the loop of deduplicateEntries\<close>

lemma try_catch_Inr:
  "try_catch body (Inr v) = Inr (case body of Inl e \<Rightarrow> v | Inr b \<Rightarrow> b)"
  by (simp add: try_catch_def split: sum.splits)

lemma areBodiesSimilar_returns: "\<exists>b. areBodiesSimilar parse body1 body2 = Inr b"
  by (auto simp: areBodiesSimilar_def try_catch_Inr)

lemma areRequestsSemanticallySimilar_returns:
  "\<exists>b. areRequestsSemanticallySimilar parse sig1 sig2 = Inr b"
proof -
  obtain b where "areBodiesSimilar parse (sig_body sig1) (sig_body sig2) = Inr b"
    using areBodiesSimilar_returns by blast
  then show ?thesis by (auto simp: areRequestsSemanticallySimilar_def)
qed

lemma areResponsesSemanticallySimilar_returns:
  "\<exists>b. areResponsesSemanticallySimilar parse entry1 entry2 = Inr b"
  by (auto simp: areResponsesSemanticallySimilar_def Let_def try_catch_Inr)

lemma similarExists_eq:
  "similarExists parse entry deduplicated = Inr (list_ex (bothSimilar parse entry) deduplicated)"
proof (induction deduplicated)
  case Nil
  show ?case by simp
next
  case (Cons existingEntry rest)
  obtain r where r: "areRequestsSemanticallySimilar parse
        (createSemanticSignature entry) (createSemanticSignature existingEntry) = Inr r"
    using areRequestsSemanticallySimilar_returns by blast
  obtain p where p: "areResponsesSemanticallySimilar parse entry existingEntry = Inr p"
    using areResponsesSemanticallySimilar_returns by blast
  show ?case using Cons r p by (auto simp: bothSimilar_def)
qed

lemma deduplicateLoop_step:
  "deduplicateLoop parse (entry # entries) deduplicated =
     deduplicateLoop parse entries
       (if list_ex (bothSimilar parse entry) deduplicated then deduplicated
        else deduplicated @ [entry])"
  by (simp add: similarExists_eq)

lemma deduplicateLoop_returns:
  "\<exists>kept. deduplicateLoop parse entries deduplicated = Inr (deduplicated @ kept) \<and> subseq kept entries"
proof (induction entries arbitrary: deduplicated)
  case Nil
  show ?case by simp
next
  case (Cons entry entries)
  show ?case
  proof (cases "list_ex (bothSimilar parse entry) deduplicated")
    case True
    from Cons [of deduplicated] obtain kept where
      "deduplicateLoop parse entries deduplicated = Inr (deduplicated @ kept)" "subseq kept entries"
      by blast
    with True show ?thesis by (auto simp: deduplicateLoop_step simp del: deduplicateLoop.simps)
  next
    case False
    from Cons [of "deduplicated @ [entry]"] obtain kept where
      "deduplicateLoop parse entries (deduplicated @ [entry]) = Inr ((deduplicated @ [entry]) @ kept)"
      "subseq kept entries"
      by blast
    with False show ?thesis
      by (intro exI [of _ "entry # kept"]) (simp add: deduplicateLoop_step del: deduplicateLoop.simps)
  qed
qed

lemma deduplicateLoop_append:
  "deduplicateLoop parse (xs @ ys) deduplicated =
     (case deduplicateLoop parse xs deduplicated of
        Inl e \<Rightarrow> Inl e
      | Inr kept \<Rightarrow> deduplicateLoop parse ys kept)"
  by (induction xs arbitrary: deduplicated)
     (simp_all add: deduplicateLoop_step del: deduplicateLoop.simps(2))

lemma irredundant_snoc:
  "irredundant parse kept \<Longrightarrow> \<not> list_ex (bothSimilar parse entry) kept \<Longrightarrow>
   irredundant parse (kept @ [entry])"
  unfolding irredundant_def
proof (intro allI impI)
  fix pre e post
  assume a: "\<forall>pre entry post. kept = pre @ entry # post \<longrightarrow> \<not> list_ex (bothSimilar parse entry) pre"
    and b: "\<not> list_ex (bothSimilar parse entry) kept"
    and c: "kept @ [entry] = pre @ e # post"
  show "\<not> list_ex (bothSimilar parse e) pre"
  proof (cases post rule: rev_cases)
    case Nil
    with c have "pre = kept" "e = entry" by auto
    with b show ?thesis by simp
  next
    case (snoc post' x)
    with c have "kept = pre @ e # post'" by (metis append_assoc append_Cons butlast_snoc)
    with a show ?thesis by blast
  qed
qed

lemma deduplicateLoop_irredundant:
  "irredundant parse deduplicated \<Longrightarrow> deduplicateLoop parse entries deduplicated = Inr kept \<Longrightarrow>
   irredundant parse kept"
proof (induction entries arbitrary: deduplicated)
  case Nil
  then show ?case by simp
next
  case (Cons entry entries)
  show ?case
  proof (cases "list_ex (bothSimilar parse entry) deduplicated")
    case True
    with Cons.prems(2) have "deduplicateLoop parse entries deduplicated = Inr kept"
      by (simp add: deduplicateLoop_step del: deduplicateLoop.simps(2))
    with Cons.IH Cons.prems(1) show ?thesis by blast
  next
    case False
    with Cons.prems(2) have "deduplicateLoop parse entries (deduplicated @ [entry]) = Inr kept"
      by (simp add: deduplicateLoop_step del: deduplicateLoop.simps(2))
    with Cons.IH irredundant_snoc [OF Cons.prems(1) False] show ?thesis by blast
  qed
qed

lemma deduplicateLoop_fixed:
  "irredundant parse (deduplicated @ entries) \<Longrightarrow>
   deduplicateLoop parse entries deduplicated = Inr (deduplicated @ entries)"
proof (induction entries arbitrary: deduplicated)
  case Nil
  show ?case by simp
next
  case (Cons entry entries)
  from Cons.prems have "\<not> list_ex (bothSimilar parse entry) deduplicated"
    unfolding irredundant_def by blast
  moreover from Cons.prems have "irredundant parse ((deduplicated @ [entry]) @ entries)" by simp
  ultimately show ?case
    using Cons.IH [of "deduplicated @ [entry]"]
    by (simp add: deduplicateLoop_step del: deduplicateLoop.simps(2))
qed

subsection \<open>areJsonStructuresSimilar on null\<close>

text \<open>
  Claim C4. \<^verbatim>\<open>areJsonStructuresSimilar\<close> is meant to hold only for values of matching
  types. The code tests \<^verbatim>\<open>obj1 !== null\<close> before it reads the keys, and never tests
  \<^verbatim>\<open>obj2\<close>: \<^verbatim>\<open>null\<close> against an object falls through to the final \<^verbatim>\<open>return true\<close>,
  and an object against \<^verbatim>\<open>null\<close> throws the TypeError of \<^verbatim>\<open>Object.keys(null)\<close>. The
  four examples of the claim on objects evaluate as the claim says.
\<close>

theorem areJsonStructuresSimilar_null_object:
  "areJsonStructuresSimilar JNull (JObj [(''a'', JNum 1)]) = Inr True
   \<and> areJsonStructuresSimilar (JObj [(''a'', JNum 1)]) JNull = Inl TypeError
   \<and> areJsonStructuresSimilar (JObj [(''a'', JNum 1)]) (JObj [(''a'', JNum 1), (''b'', JNum 2)]) = Inr False
   \<and> areJsonStructuresSimilar (JObj [(''a'', JNum 1)]) (JObj [(''b'', JNum 1)]) = Inr False
   \<and> areJsonStructuresSimilar (JObj [(''a'', JNum 1)]) (JObj [(''a'', JNum 2)]) = Inr True
   \<and> areJsonStructuresSimilar (JObj [(''a'', JNum 1)]) (JObj [(''a'', JStr ''x'')]) = Inr False"
  by (simp add: areJsonStructuresSimilar.simps)

subsection \<open>deduplicateEntries keeps the first of each group\<close>

text \<open>
  Claim C1. \<^verbatim>\<open>deduplicateEntries\<close> returns; its result is a subsequence of the input in
  the input's order; and an exchange that comes after the exchanges \<open>entries\<close> is
  dropped exactly when one of the exchanges retained from \<open>entries\<close> passes both the
  request test and the response test against it, and is appended to the retained ones
  otherwise. The input list is a value: nothing mutates it.
\<close>

theorem deduplicateEntries_first_seen_wins:
  "deduplicateEntries parse [] = Inr []
   \<and> (\<exists>kept. deduplicateEntries parse entries = Inr kept \<and> subseq kept entries
        \<and> deduplicateEntries parse (entries @ [entry]) =
            Inr (if (\<exists>existingEntry \<in> set kept.
                       areRequestsSemanticallySimilar parse
                         (createSemanticSignature entry) (createSemanticSignature existingEntry) = Inr True
                       \<and> areResponsesSemanticallySimilar parse entry existingEntry = Inr True)
                 then kept else kept @ [entry]))"
proof -
  obtain kept where kept: "deduplicateLoop parse entries [] = Inr kept" "subseq kept entries"
    using deduplicateLoop_returns [of parse entries "[]"] by auto
  have "deduplicateLoop parse (entries @ [entry]) [] =
          Inr (if list_ex (bothSimilar parse entry) kept then kept else kept @ [entry])"
    using kept(1) by (simp add: deduplicateLoop_append similarExists_eq)
  moreover have "list_ex (bothSimilar parse entry) kept \<longleftrightarrow>
      (\<exists>existingEntry \<in> set kept.
          areRequestsSemanticallySimilar parse
            (createSemanticSignature entry) (createSemanticSignature existingEntry) = Inr True
          \<and> areResponsesSemanticallySimilar parse entry existingEntry = Inr True)"
    by (simp add: list_ex_iff bothSimilar_def)
  ultimately show ?thesis using kept by (simp add: deduplicateEntries_def)
qed

theorem deduplicateEntries_first_seen_wins_witness:
  "deduplicateEntries sampleParse [exchangeA, exchangeB] = Inr [exchangeA]"
proof -
  have a: "deduplicateEntries sampleParse [exchangeA] = Inr [exchangeA]"
    by code_simp
  have r: "areRequestsSemanticallySimilar sampleParse
      (createSemanticSignature exchangeB) (createSemanticSignature exchangeA) = Inr True"
    by code_simp
  have p: "areResponsesSemanticallySimilar sampleParse exchangeB exchangeA = Inr True"
    by code_simp
  show ?thesis
    using deduplicateEntries_first_seen_wins [of sampleParse "[exchangeA]" exchangeB] a r p
    by simp
qed

text \<open>
  Claim C7. Running \<^verbatim>\<open>deduplicateEntries\<close> on its own result gives that result again.
\<close>

theorem deduplicateEntries_idempotent:
  "(case deduplicateEntries parse xs of
      Inl e \<Rightarrow> Inl e
    | Inr ys \<Rightarrow> deduplicateEntries parse ys) = deduplicateEntries parse xs"
proof -
  obtain ys where ys: "deduplicateLoop parse xs [] = Inr ys"
    using deduplicateLoop_returns [of parse xs "[]"] by auto
  have "irredundant parse []" by (simp add: irredundant_def)
  then have "irredundant parse ys" using ys by (rule deduplicateLoop_irredundant)
  then have "deduplicateLoop parse ys [] = Inr ys"
    using deduplicateLoop_fixed [of parse "[]" ys] by simp
  with ys show ?thesis by (simp add: deduplicateEntries_def)
qed

theorem deduplicateEntries_idempotent_witness:
  "deduplicateEntries sampleParse [exchangeA, exchangeB] = Inr [exchangeA]
   \<and> deduplicateEntries sampleParse [exchangeA] = Inr [exchangeA]"
proof -
  have "deduplicateEntries sampleParse [exchangeA, exchangeB] = Inr [exchangeA]"
    by code_simp
  then show ?thesis
    using deduplicateEntries_idempotent [of sampleParse "[exchangeA, exchangeB]"] by simp
qed

text \<open>
  Claim C8. \<^verbatim>\<open>deduplicateEntries\<close>, \<^verbatim>\<open>areBodiesSimilar\<close> and
  \<^verbatim>\<open>areResponsesSemanticallySimilar\<close> return a result for every input and every
  behaviour of \<^verbatim>\<open>JSON.parse\<close>, with no error raised. When a body fails to parse, and
  when one body parses to an object and the other to \<^verbatim>\<open>null\<close> (the comparison of the
  parsed values then throws inside the \<^verbatim>\<open>try\<close>), the raw texts are compared. The
  function takes no URL parser: it never parses a URL.
\<close>

theorem deduplicateEntries_total:
  "(\<exists>kept. deduplicateEntries parse entries = Inr kept)
   \<and> (\<exists>b. areBodiesSimilar parse body1 body2 = Inr b)
   \<and> (\<exists>b. areResponsesSemanticallySimilar parse entry1 entry2 = Inr b)
   \<and> (\<not> falsy body1 \<and> \<not> falsy body2
        \<and> (parse (the body1) = Inl err \<or> parse (the body2) = Inl err)
        \<longrightarrow> areBodiesSimilar parse body1 body2 = Inr (body1 = body2))
   \<and> (\<not> falsy body1 \<and> \<not> falsy body2
        \<and> parse (the body1) = Inr (JObj kvs) \<and> parse (the body2) = Inr JNull
        \<longrightarrow> areBodiesSimilar parse body1 body2 = Inr (body1 = body2))
   \<and> (res_status (e_response entry1) = res_status (e_response entry2)
        \<and> hasJson (res_content (e_response entry1)) = Flag True
        \<and> hasJson (res_content (e_response entry2)) = Flag True
        \<and> (parse (textOrEmptyObject (c_text (res_content (e_response entry1)))) = Inl err
            \<or> parse (textOrEmptyObject (c_text (res_content (e_response entry2)))) = Inl err)
        \<longrightarrow> areResponsesSemanticallySimilar parse entry1 entry2 =
              Inr (c_text (res_content (e_response entry1)) = c_text (res_content (e_response entry2))))"
proof (intro conjI impI)
  show "\<exists>kept. deduplicateEntries parse entries = Inr kept"
    using deduplicateLoop_returns [of parse entries "[]"] by (auto simp: deduplicateEntries_def)
  show "\<exists>b. areBodiesSimilar parse body1 body2 = Inr b"
    by (rule areBodiesSimilar_returns)
  show "\<exists>b. areResponsesSemanticallySimilar parse entry1 entry2 = Inr b"
    by (rule areResponsesSemanticallySimilar_returns)
next
  assume "\<not> falsy body1 \<and> \<not> falsy body2
        \<and> (parse (the body1) = Inl err \<or> parse (the body2) = Inl err)"
  then show "areBodiesSimilar parse body1 body2 = Inr (body1 = body2)"
    by (auto simp: areBodiesSimilar_def try_catch_Inr split: sum.splits)
next
  assume "\<not> falsy body1 \<and> \<not> falsy body2
        \<and> parse (the body1) = Inr (JObj kvs) \<and> parse (the body2) = Inr JNull"
  then show "areBodiesSimilar parse body1 body2 = Inr (body1 = body2)"
    by (simp add: areBodiesSimilar_def try_catch_Inr areJsonStructuresSimilar.simps)
next
  assume "res_status (e_response entry1) = res_status (e_response entry2)
        \<and> hasJson (res_content (e_response entry1)) = Flag True
        \<and> hasJson (res_content (e_response entry2)) = Flag True
        \<and> (parse (textOrEmptyObject (c_text (res_content (e_response entry1)))) = Inl err
            \<or> parse (textOrEmptyObject (c_text (res_content (e_response entry2)))) = Inl err)"
  then show "areResponsesSemanticallySimilar parse entry1 entry2 =
              Inr (c_text (res_content (e_response entry1)) = c_text (res_content (e_response entry2)))"
    by (auto simp: areResponsesSemanticallySimilar_def Let_def try_catch_Inr split: sum.splits)
qed

theorem deduplicateEntries_total_witness:
  \<open>areBodiesSimilar sampleParse (Some ''{"id":1,"name":"x"}'') (Some ''null'') = Inr False
   \<and> areBodiesSimilar sampleParse (Some ''not json'') (Some ''not json'') = Inr True
   \<and> areResponsesSemanticallySimilar sampleParse
        (exchange ''/a'' ''<html>'') (exchange ''/b'' ''<html>'') = Inr True\<close>
proof -
  have h: \<open>\<not> falsy (Some ''{"id":1,"name":"x"}'') \<and> \<not> falsy (Some ''null'')
        \<and> sampleParse (the (Some ''{"id":1,"name":"x"}'')) = Inr (JObj [(''id'', JNum 1), (''name'', JStr ''x'')])
        \<and> sampleParse (the (Some ''null'')) = Inr JNull\<close>
    by (simp add: sampleParse_def)
  have g: "\<not> falsy (Some ''not json'') \<and> \<not> falsy (Some ''not json'')
        \<and> (sampleParse (the (Some ''not json'')) = Inl SyntaxError
            \<or> sampleParse (the (Some ''not json'')) = Inl SyntaxError)"
    by (simp add: sampleParse_def)
  have f: "res_status (e_response (exchange ''/a'' ''<html>'')) = res_status (e_response (exchange ''/b'' ''<html>''))
        \<and> hasJson (res_content (e_response (exchange ''/a'' ''<html>''))) = Flag True
        \<and> hasJson (res_content (e_response (exchange ''/b'' ''<html>''))) = Flag True
        \<and> (sampleParse (textOrEmptyObject (c_text (res_content (e_response (exchange ''/a'' ''<html>''))))) = Inl SyntaxError
            \<or> sampleParse (textOrEmptyObject (c_text (res_content (e_response (exchange ''/b'' ''<html>''))))) = Inl SyntaxError)"
    by (simp add: exchange_def hasJson_def sampleParse_def textOrEmptyObject_def)
  show ?thesis
    using deduplicateEntries_total [of sampleParse _ \<open>Some ''{"id":1,"name":"x"}''\<close> "Some ''null''"
        _ _ SyntaxError "[(''id'', JNum 1), (''name'', JStr ''x'')]"] h
      deduplicateEntries_total [of sampleParse _ "Some ''not json''" "Some ''not json''"
        "exchange ''/a'' ''<html>''" "exchange ''/b'' ''<html>''" SyntaxError] g f
    by (simp add: exchange_def)
qed

subsection \<open>generateSummary\<close>







subsection \<open>The request test\<close>

lemma keysMatch_eq: "length keys1 = length keys2 \<Longrightarrow> keysMatch keys1 keys2 \<longleftrightarrow> keys1 = keys2"
  by (induction keys1 keys2 rule: list_induct2) auto

lemma sort_eq_iff_set_eq:
  fixes xs ys :: "string list"
  assumes "distinct xs" "distinct ys"
  shows "sort xs = sort ys \<longleftrightarrow> set xs = set ys"
proof
  assume "sort xs = sort ys"
  then have "set (sort xs) = set (sort ys)" by simp
  then show "set xs = set ys" by simp
next
  assume "set xs = set ys"
  then show "sort xs = sort ys"
    using assms by (intro sorted_distinct_set_unique) simp_all
qed













subsection \<open>The response test\<close>

lemma hasJson_eq_iff:
  assumes "\<not> (c_mimeType content1 = [] \<and> c_mimeType content2 \<noteq> []
              \<and> \<not> includes_str (c_mimeType content2) ''json'')"
    and "\<not> (c_mimeType content2 = [] \<and> c_mimeType content1 \<noteq> []
              \<and> \<not> includes_str (c_mimeType content1) ''json'')"
  shows "hasJson content1 = hasJson content2 \<longleftrightarrow>
     includes_str (c_mimeType content1) ''json'' = includes_str (c_mimeType content2) ''json''"
  using assms by (auto simp: hasJson_def)

lemma truthy_hasJson: "truthy (hasJson content) = includes_str (c_mimeType content) ''json''"
  by (simp add: hasJson_def)

text \<open>
  Claim C3, amended. Leave aside the pairs where one MIME type is empty and the other is
  a non-empty type without "json". On every other pair of exchanges the response test
  returns \<^verbatim>\<open>true\<close> exactly when: the status codes are equal; both MIME types contain
  "json" or neither does; and, when both do, both texts parse, a missing or empty text
  being parsed as \<^verbatim>\<open>{}\<close>, and \<^verbatim>\<open>areJsonStructuresSimilar\<close> holds of the normalized
  values, or a parse fails or that comparison throws and the texts are equal; when
  neither does, the texts are equal, two missing texts being equal.
\<close>

theorem areResponsesSemanticallySimilar_iff:
  assumes "\<not> (c_mimeType (res_content (e_response entry1)) = []
              \<and> c_mimeType (res_content (e_response entry2)) \<noteq> []
              \<and> \<not> includes_str (c_mimeType (res_content (e_response entry2))) ''json'')"
    and "\<not> (c_mimeType (res_content (e_response entry2)) = []
              \<and> c_mimeType (res_content (e_response entry1)) \<noteq> []
              \<and> \<not> includes_str (c_mimeType (res_content (e_response entry1))) ''json'')"
  shows "areResponsesSemanticallySimilar parse entry1 entry2 =
     Inr (res_status (e_response entry1) = res_status (e_response entry2)
          \<and> includes_str (c_mimeType (res_content (e_response entry1))) ''json'' =
             includes_str (c_mimeType (res_content (e_response entry2))) ''json''
          \<and> (if includes_str (c_mimeType (res_content (e_response entry1))) ''json''
                \<and> includes_str (c_mimeType (res_content (e_response entry2))) ''json''
              then
                (case (parse (if falsy (c_text (res_content (e_response entry1))) then ''{}''
                              else the (c_text (res_content (e_response entry1)))),
                       parse (if falsy (c_text (res_content (e_response entry2))) then ''{}''
                              else the (c_text (res_content (e_response entry2))))) of
                   (Inr json1, Inr json2) \<Rightarrow>
                     (case areJsonStructuresSimilar
                             (normalizeJsonStructure json1) (normalizeJsonStructure json2) of
                        Inr similar \<Rightarrow> similar
                      | Inl e \<Rightarrow>
                          c_text (res_content (e_response entry1)) =
                          c_text (res_content (e_response entry2)))
                 | _ \<Rightarrow>
                     c_text (res_content (e_response entry1)) =
                     c_text (res_content (e_response entry2)))
              else c_text (res_content (e_response entry1)) =
                   c_text (res_content (e_response entry2))))"
  using hasJson_eq_iff [OF assms]
  by (auto simp: areResponsesSemanticallySimilar_def Let_def try_catch_Inr truthy_hasJson
      textOrEmptyObject_def split: sum.splits)

theorem areResponsesSemanticallySimilar_iff_witness:
  "areResponsesSemanticallySimilar sampleParse exchangeB exchangeA = Inr True
   \<and> areResponsesSemanticallySimilar sampleParse
        (withResponse ''text/html'' None) (withResponse ''text/plain'' None) = Inr True
   \<and> areResponsesSemanticallySimilar sampleParse
        (withResponse ''application/json'' (Some ''<html>''))
        (withResponse ''application/json'' (Some ''{}'')) = Inr False"
proof -
  have "areResponsesSemanticallySimilar sampleParse exchangeB exchangeA = Inr True"
    using areResponsesSemanticallySimilar_iff [of exchangeB exchangeA sampleParse]
    by (simp add: exchangeA_def exchangeB_def exchange_def sampleParse_def
        areJsonStructuresSimilar.simps)
  moreover have "areResponsesSemanticallySimilar sampleParse
        (withResponse ''text/html'' None) (withResponse ''text/plain'' None) = Inr True"
    using areResponsesSemanticallySimilar_iff
      [of "withResponse ''text/html'' None" "withResponse ''text/plain'' None" sampleParse]
    by (simp add: withResponse_def exchangeA_def exchange_def)
  moreover have "areResponsesSemanticallySimilar sampleParse
        (withResponse ''application/json'' (Some ''<html>''))
        (withResponse ''application/json'' (Some ''{}'')) = Inr False"
    using areResponsesSemanticallySimilar_iff
      [of "withResponse ''application/json'' (Some ''<html>'')"
          "withResponse ''application/json'' (Some ''{}'')" sampleParse]
    by (simp add: withResponse_def exchangeA_def exchange_def sampleParse_def)
  ultimately show ?thesis by blast
qed

text \<open>
  Claim C3 as stated fails on an empty text: the text \<^verbatim>\<open>""\<close> does not parse, so by the
  claim the raw texts \<^verbatim>\<open>""\<close> and \<^verbatim>\<open>"{}"\<close> are compared and differ; the code parses
  \<^verbatim>\<open>{}\<close> in place of the empty text and finds the two responses similar.
\<close>

theorem areResponsesSemanticallySimilar_empty_text:
  "areResponsesSemanticallySimilar sampleParse
      (withResponse ''application/json'' (Some []))
      (withResponse ''application/json'' (Some ''{}'')) = Inr True
   \<and> sampleParse [] = Inl SyntaxError
   \<and> \<not> claimedResponsesSimilar sampleParse
        (withResponse ''application/json'' (Some []))
        (withResponse ''application/json'' (Some ''{}''))"
  by code_simp

text \<open>
  The pairs left aside: the value of \<^verbatim>\<open>content && content.mimeType && ...\<close> is the empty
  string for an empty MIME type and \<^verbatim>\<open>false\<close> for a type without "json", and \<^verbatim>\<open>!==\<close>
  tells them apart. Two responses that both lack a JSON type and have the same text are
  then found different.
\<close>

lemma areResponsesSemanticallySimilar_empty_mime:
  "areResponsesSemanticallySimilar sampleParse
      (withResponse [] (Some ''ok'')) (withResponse ''text/plain'' (Some ''ok'')) = Inr False"
  by code_simp

subsection \<open>removeExactDuplicates\<close>























subsection \<open>normalizeJsonStructure and convertResponse\<close>










subsection \<open>normalizeUrl on the segments of a text\<close>


lemma joinSegments_simps:
  "joinSegments [] = []"
  "joinSegments (seg # segs) = CHR ''/'' # seg @ joinSegments segs"
  by (simp_all add: joinSegments_def)

lemma joinSegments_start: "joinSegments segs = [] \<or> hd (joinSegments segs) = CHR ''/''"
  by (cases segs) (simp_all add: joinSegments_simps)


























text \<open>
  The texts left aside by the amended claim: of two neighbouring segments that match, the
  second is not replaced, since the \<^verbatim>\<open>/\<close> between them belongs to the match of the first.
\<close>

lemma normalizeUrl_neighbours:
  "normalizeUrl ''/users/1/2'' = ''/users/{id}/2''"
  by code_simp

subsection \<open>areJsonStructuresSimilar away from null\<close>

lemma keys_test_iff:
  fixes kvs1 kvs2 :: "(string \<times> json) list"
  assumes "distinct (map fst kvs1)" "distinct (map fst kvs2)"
  shows "length (sort (map fst kvs1)) = length (sort (map fst kvs2))
         \<and> keysMatch (sort (map fst kvs1)) (sort (map fst kvs2))
         \<longleftrightarrow> set (map fst kvs1) = set (map fst kvs2) \<and> length kvs1 = length kvs2"
proof -
  have "length (sort (map fst kvs1)) = length (sort (map fst kvs2))
         \<and> keysMatch (sort (map fst kvs1)) (sort (map fst kvs2))
         \<longleftrightarrow> sort (map fst kvs1) = sort (map fst kvs2)"
  proof
    assume a: "length (sort (map fst kvs1)) = length (sort (map fst kvs2))
         \<and> keysMatch (sort (map fst kvs1)) (sort (map fst kvs2))"
    then show "sort (map fst kvs1) = sort (map fst kvs2)"
      using keysMatch_eq [of "sort (map fst kvs1)" "sort (map fst kvs2)"] by blast
  next
    assume e: "sort (map fst kvs1) = sort (map fst kvs2)"
    then have l: "length (sort (map fst kvs1)) = length (sort (map fst kvs2))"
      by (rule arg_cong)
    from keysMatch_eq [OF l] e l
    show "length (sort (map fst kvs1)) = length (sort (map fst kvs2))
         \<and> keysMatch (sort (map fst kvs1)) (sort (map fst kvs2))"
      by blast
  qed
  also have "\<dots> \<longleftrightarrow> set (map fst kvs1) = set (map fst kvs2)"
    using assms by (rule sort_eq_iff_set_eq)
  also have "\<dots> \<longleftrightarrow> set (map fst kvs1) = set (map fst kvs2) \<and> length kvs1 = length kvs2"
    using assms distinct_card [of "map fst kvs1"] distinct_card [of "map fst kvs2"] by auto
  finally show ?thesis .
qed

text \<open>
  Away from \<^verbatim>\<open>null\<close> the code computes structural similarity: on values without
  \<^verbatim>\<open>null\<close> whose objects have no member name twice, \<^verbatim>\<open>areJsonStructuresSimilar\<close>
  returns, and returns whether the two values are structurally similar. The second
  statement is the invariant of the loop over the keys.
\<close>

lemma similar_agree:
  "distinctKeys obj1 \<Longrightarrow> distinctKeys obj2 \<Longrightarrow> nullFree obj1 \<Longrightarrow> nullFree obj2 \<Longrightarrow>
     areJsonStructuresSimilar obj1 obj2 = Inr (structurallySimilar obj1 obj2)"
  and "\<forall>kv \<in> set kvs1. distinctKeys (snd kv) \<and> nullFree (snd kv) \<Longrightarrow>
     \<forall>kv \<in> set kvs2. distinctKeys (snd kv) \<and> nullFree (snd kv) \<Longrightarrow>
     set keys \<subseteq> fst ` set kvs1 \<Longrightarrow> set keys \<subseteq> fst ` set kvs2 \<Longrightarrow>
     similarForKeys keys kvs1 kvs2 =
       Inr (\<forall>key \<in> set keys. \<forall>v1 v2. Some v1 = map_of kvs1 key \<and> Some v2 = map_of kvs2 key
              \<longrightarrow> structurallySimilar v1 v2)"
proof (induction obj1 obj2 and keys kvs1 kvs2 rule: areJsonStructuresSimilar_similarForKeys.induct)
  case (1 obj1 obj2)
  show ?case
  proof (cases obj1)
    case (JArr xs)
    show ?thesis
    proof (cases obj2)
      case (JArr ys)
      show ?thesis
      proof (cases "xs = [] \<or> ys = []")
        case True
        then show ?thesis
          unfolding \<open>obj1 = JArr xs\<close> \<open>obj2 = JArr ys\<close>
          by (auto simp: areJsonStructuresSimilar.simps [of "JArr xs" "JArr ys"]
              structurallySimilar.simps [of "JArr xs" "JArr ys"])
      next
        case False
        then have "areJsonStructuresSimilar (hd xs) (hd ys) = Inr (structurallySimilar (hd xs) (hd ys))"
          using "1.IH"(1) "1.prems" \<open>obj1 = JArr xs\<close> \<open>obj2 = JArr ys\<close>
          by (cases xs; cases ys) auto
        with False show ?thesis
          unfolding \<open>obj1 = JArr xs\<close> \<open>obj2 = JArr ys\<close>
          by (simp add: areJsonStructuresSimilar.simps [of "JArr xs" "JArr ys"]
              structurallySimilar.simps [of "JArr xs" "JArr ys"])
      qed
    qed (use "1.prems" JArr in \<open>simp_all add: areJsonStructuresSimilar.simps(1)
              structurallySimilar.simps\<close>)
  next
    case (JObj kvs1)
    show ?thesis
    proof (cases obj2)
      case (JObj kvs2)
      from "1.prems" \<open>obj1 = JObj kvs1\<close> \<open>obj2 = JObj kvs2\<close>
      have d: "distinct (map fst kvs1)" "distinct (map fst kvs2)" by simp_all
      note k = keys_test_iff [OF d]
      show ?thesis
      proof (cases "set (map fst kvs1) = set (map fst kvs2) \<and> length kvs1 = length kvs2")
        case False
        with k show ?thesis
          unfolding \<open>obj1 = JObj kvs1\<close> \<open>obj2 = JObj kvs2\<close>
          by (auto simp: areJsonStructuresSimilar.simps [of "JObj kvs1" "JObj kvs2"]
              structurallySimilar.simps [of "JObj kvs1" "JObj kvs2"] Let_def)
      next
        case True
        with k have t: "length (sort (map fst kvs1)) = length (sort (map fst kvs2))"
          "keysMatch (sort (map fst kvs1)) (sort (map fst kvs2))" by simp_all
        have "similarForKeys (sort (map fst kvs1)) kvs1 kvs2 =
            Inr (\<forall>key \<in> set (sort (map fst kvs1)). \<forall>v1 v2.
                   Some v1 = map_of kvs1 key \<and> Some v2 = map_of kvs2 key
                   \<longrightarrow> structurallySimilar v1 v2)"
          using "1.IH"(2) [OF _ _ _ \<open>obj1 = JObj kvs1\<close> \<open>obj2 = JObj kvs2\<close> refl refl] t True
            "1.prems" \<open>obj1 = JObj kvs1\<close> \<open>obj2 = JObj kvs2\<close>
          by auto
        with t True show ?thesis
          unfolding \<open>obj1 = JObj kvs1\<close> \<open>obj2 = JObj kvs2\<close>
          by (auto simp: areJsonStructuresSimilar.simps [of "JObj kvs1" "JObj kvs2"]
              structurallySimilar.simps [of "JObj kvs1" "JObj kvs2"] Let_def)
      qed
    qed (use "1.prems" JObj in \<open>simp_all add: areJsonStructuresSimilar.simps(1)
              structurallySimilar.simps\<close>)
  qed (use "1.prems" in \<open>cases obj2; simp add: areJsonStructuresSimilar.simps(1)
              structurallySimilar.simps\<close>)+
next
  case (2 kvs1 kvs2)
  show ?case by simp
next
  case (3 key keys kvs1 kvs2)
  from "3.prems"(3) obtain v1 where v1: "map_of kvs1 key = Some v1"
    by (cases "map_of kvs1 key") (auto simp: map_of_eq_None_iff)
  from "3.prems"(4) obtain v2 where v2: "map_of kvs2 key = Some v2"
    by (cases "map_of kvs2 key") (auto simp: map_of_eq_None_iff)
  from v1 have "(key, v1) \<in> set kvs1" by (rule map_of_SomeD)
  with "3.prems"(1) have c1: "distinctKeys v1" "nullFree v1" by auto
  from v2 have "(key, v2) \<in> set kvs2" by (rule map_of_SomeD)
  with "3.prems"(2) have c2: "distinctKeys v2" "nullFree v2" by auto
  have a: "areJsonStructuresSimilar v1 v2 = Inr (structurallySimilar v1 v2)"
    using "3.IH"(2) [of "Some v1" "Some v2" v1 v2] v1 v2 c1 c2 by simp
  show ?case
  proof (cases "structurallySimilar v1 v2")
    case False
    with a v1 v2 show ?thesis
      by auto
  next
    case True
    have "similarForKeys keys kvs1 kvs2 =
       Inr (\<forall>key \<in> set keys. \<forall>v1 v2. Some v1 = map_of kvs1 key \<and> Some v2 = map_of kvs2 key
              \<longrightarrow> structurallySimilar v1 v2)"
      using "3.IH"(3) [of "Some v1" "Some v2" v1 v2 True] a v1 v2 True "3.prems" by simp
    with a v1 v2 True show ?thesis
      by auto
  qed
qed

end
